theory Spec2Isabelle
  imports Complex_Main "HOL-Library.AList"
begin

section \<open>Shared conventions\<close>

text \<open>
  The scheduler of \<^verbatim>\<open>multi_node/global_scheduler.py\<close> is embedded as follows.
  An \<^verbatim>\<open>LPTreeNode\<close> object is known by its identity, a natural number; workers
  (GPUs) are natural numbers; a \<^verbatim>\<open>datetime\<close> is an integer count of microseconds
  and a \<^verbatim>\<open>timedelta\<close> an integer number of microseconds. Python's floats (TTFT
  samples, the quotients \<^verbatim>\<open>cost / len(...)\<close>) are exact rationals here, so
  rounding is not part of the model. Every exception the code can raise is a value of
  \<open>py_error\<close>.
\<close>

datatype py_error =
  AttributeError | KeyError | IndexError | TypeError | AssertionError | ZeroDivisionError |
  ValueError

section \<open>LPTreeNode\<close>

text \<open>
  Modelled from the spec: the class \<^verbatim>\<open>LPTreeNode\<close> of \<^verbatim>\<open>global_lru_cache\<close> is imported by
  the scheduler but its declaration is not part of the sources. The fields are those of the
  specification's data model: the token segment (\<^verbatim>\<open>value\<close>), the cumulative
  \<^verbatim>\<open>context_length\<close>, the children keyed by first token, the parent reference, the
  sets \<^verbatim>\<open>cached_gpus\<close> and \<^verbatim>\<open>evicted_gpus\<close> and the per-worker \<^verbatim>\<open>ref_counter\<close>.
  \<^verbatim>\<open>num_tokens\<close> is the length of the segment, and \<^verbatim>\<open>has_cached_gpu\<close> is membership in
  \<^verbatim>\<open>cached_gpus\<close>.
\<close>

record LPTreeNode =
  node_value :: "nat list"
  context_length :: nat
  children :: "(nat \<times> nat) list"
  parent :: "nat option"
  cached_gpus :: "nat set"
  evicted_gpus :: "nat set"
  ref_counter :: "int list"

definition num_tokens :: "LPTreeNode \<Rightarrow> nat" where
  "num_tokens n = length (node_value n)"

definition has_cached_gpu :: "LPTreeNode \<Rightarrow> nat \<Rightarrow> bool" where
  "has_cached_gpu n gpu \<longleftrightarrow> gpu \<in> cached_gpus n"

text \<open>The objects of the tree: every identity denotes a node object.\<close>

type_synonym node_store = "nat \<Rightarrow> LPTreeNode"

section \<open>SlidingWindowHistogram\<close>

text \<open>
  \<^verbatim>\<open>histogram\<close> is a \<^verbatim>\<open>defaultdict(int)\<close> that the code iterates, so it is an association
  list in insertion order (\<open>AList.update\<close> overwrites in place or appends, as a Python dict
  does); \<^verbatim>\<open>node_to_count\<close> is only read by key. The dictionary \<^verbatim>\<open>gpu_allocations\<close> is
  the scheduler's own object, shared by reference: the operations below take it and return it.
\<close>

record SlidingWindowHistogram =
  window_duration :: int
  histogram :: "(nat \<times> int) list"
  node_to_count :: "nat \<rightharpoonup> int"
  timestamps :: "(int \<times> nat \<times> nat) list"
  num_gpus :: nat

type_synonym gpu_allocation_map = "nat \<rightharpoonup> nat set"

definition histogram_get :: "(nat \<times> int) list \<Rightarrow> nat \<Rightarrow> int" where
  "histogram_get H node = (case map_of H node of None \<Rightarrow> 0 | Some c \<Rightarrow> c)"

definition count_get :: "(nat \<rightharpoonup> int) \<Rightarrow> nat \<Rightarrow> int" where
  "count_get C node = (case C node of None \<Rightarrow> 0 | Some c \<Rightarrow> c)"

text \<open>One iteration of the loop of \<^verbatim>\<open>_remove_old_entries\<close>, after the head event has been
  popped.\<close>

definition expire_event ::
  "node_store \<Rightarrow> SlidingWindowHistogram \<Rightarrow> gpu_allocation_map \<Rightarrow> nat \<Rightarrow> nat \<Rightarrow>
   SlidingWindowHistogram \<times> gpu_allocation_map" where
  "expire_event store h ga node leaf_node =
     (let h1 = h\<lparr>histogram :=
                  AList.update node
                    (histogram_get (histogram h) node - int (context_length (store leaf_node)))
                    (histogram h),
                node_to_count :=
                  (node_to_count h)(node \<mapsto> count_get (node_to_count h) node - 1)\<rparr>
      in if histogram_get (histogram h1) node \<le> 0
         then (h1\<lparr>histogram := AList.delete node (histogram h1),
                  node_to_count := (node_to_count h1)(node := None)\<rparr>,
               ga(node \<mapsto> {}))
         else (h1, ga))"

function remove_old_entries ::
  "node_store \<Rightarrow> SlidingWindowHistogram \<Rightarrow> gpu_allocation_map \<Rightarrow> int \<Rightarrow>
   SlidingWindowHistogram \<times> gpu_allocation_map" where
  "remove_old_entries store h ga current_timestamp =
     (let window_start = current_timestamp - window_duration h in
      case timestamps h of
        [] \<Rightarrow> (h, ga)
      | (timestamp, node, leaf_node) # rest \<Rightarrow>
          if timestamp < window_start
          then (case expire_event store (h\<lparr>timestamps := rest\<rparr>) ga node leaf_node of
                  (h', ga') \<Rightarrow> remove_old_entries store h' ga' current_timestamp)
          else (h, ga))"
  by pat_completeness auto
termination
  by (relation "measure (\<lambda>(store, h, ga, t). length (timestamps h))")
     (auto simp: expire_event_def Let_def split: if_splits)

declare remove_old_entries.simps [simp del]

text \<open>The first three statements of \<^verbatim>\<open>update\<close>.\<close>

definition record_event ::
  "node_store \<Rightarrow> SlidingWindowHistogram \<Rightarrow> int \<Rightarrow> nat \<Rightarrow> nat \<Rightarrow> SlidingWindowHistogram" where
  "record_event store h timestamp node leaf_node =
     h\<lparr>timestamps := timestamps h @ [(timestamp, node, leaf_node)],
       histogram :=
         AList.update node
           (histogram_get (histogram h) node + int (context_length (store leaf_node)))
           (histogram h),
       node_to_count := (node_to_count h)(node \<mapsto> count_get (node_to_count h) node + 1)\<rparr>"

definition hist_update ::
  "node_store \<Rightarrow> SlidingWindowHistogram \<Rightarrow> gpu_allocation_map \<Rightarrow> int \<Rightarrow> nat \<Rightarrow> nat \<Rightarrow>
   SlidingWindowHistogram \<times> gpu_allocation_map" where
  "hist_update store h ga timestamp node leaf_node =
     remove_old_entries store (record_event store h timestamp node leaf_node) ga timestamp"

text \<open>The nodes whose weighted count reaches zero or less at some iteration of the loop of
  \<^verbatim>\<open>_remove_old_entries\<close>, in the order in which that happens. The function follows the
  loop and only observes it.\<close>

function reset_nodes ::
  "node_store \<Rightarrow> SlidingWindowHistogram \<Rightarrow> gpu_allocation_map \<Rightarrow> int \<Rightarrow> nat list" where
  "reset_nodes store h ga current_timestamp =
     (case timestamps h of
        [] \<Rightarrow> []
      | (timestamp, node, leaf_node) # rest \<Rightarrow>
          if timestamp < current_timestamp - window_duration h
          then (if histogram_get (histogram h) node - int (context_length (store leaf_node)) \<le> 0
                then [node] else []) @
               (case expire_event store (h\<lparr>timestamps := rest\<rparr>) ga node leaf_node of
                  (h', ga') \<Rightarrow> reset_nodes store h' ga' current_timestamp)
          else [])"
  by pat_completeness auto
termination
  by (relation "measure (\<lambda>(store, h, ga, t). length (timestamps h))")
     (auto simp: expire_event_def Let_def split: if_splits)

declare reset_nodes.simps [simp del]

text \<open>\<^verbatim>\<open>rename_node\<close>: \<^verbatim>\<open>node_to_count.pop(old_node)\<close> raises \<^verbatim>\<open>KeyError\<close> when the key is
  missing, after \<^verbatim>\<open>histogram\<close> has already been changed.\<close>

definition hist_rename_node ::
  "SlidingWindowHistogram \<Rightarrow> nat \<Rightarrow> nat \<Rightarrow> SlidingWindowHistogram \<times> py_error option" where
  "hist_rename_node h old_node new_node =
     (case map_of (histogram h) old_node of
        None \<Rightarrow> (h, None)
      | Some c \<Rightarrow>
          (let h1 = h\<lparr>histogram := AList.update new_node c (AList.delete old_node (histogram h))\<rparr>
           in case node_to_count h1 old_node of
                None \<Rightarrow> (h1, Some KeyError)
              | Some k \<Rightarrow>
                  (h1\<lparr>node_to_count := ((node_to_count h1)(old_node := None))(new_node \<mapsto> k),
                      timestamps :=
                        map (\<lambda>(timestamp, important_node, leaf_node).
                               (timestamp,
                                if important_node = old_node then new_node else important_node,
                                leaf_node))
                            (timestamps h1)\<rparr>,
                   None)))"

text \<open>\<^verbatim>\<open>gpu_allocations.get(node, {})\<close>.\<close>

definition allocation_of :: "gpu_allocation_map \<Rightarrow> nat \<Rightarrow> nat set" where
  "allocation_of ga node = (case ga node of None \<Rightarrow> {} | Some S \<Rightarrow> S)"

text \<open>The inner loop of \<^verbatim>\<open>current_allocation_per_gpu\<close> over the workers of one node (a set
  is iterated in increasing order here). Reading \<^verbatim>\<open>allocation[gpu]\<close> past the end raises
  \<^verbatim>\<open>IndexError\<close>, dividing by a zero length raises \<^verbatim>\<open>ZeroDivisionError\<close>.\<close>

fun add_node_cost :: "rat list \<Rightarrow> int \<Rightarrow> nat set \<Rightarrow> nat list \<Rightarrow> py_error + rat list" where
  "add_node_cost allocation cost S [] = Inr allocation"
| "add_node_cost allocation cost S (gpu # gpus) =
     (if \<not> gpu < length allocation then Inl IndexError
      else if card S = 0 then Inl ZeroDivisionError
      else add_node_cost
             (allocation[gpu := allocation ! gpu + of_int cost / of_nat (card S)]) cost S gpus)"

fun add_all_costs ::
  "gpu_allocation_map \<Rightarrow> rat list \<Rightarrow> (nat \<times> int) list \<Rightarrow> py_error + rat list" where
  "add_all_costs ga allocation [] = Inr allocation"
| "add_all_costs ga allocation ((node, cost) # items) =
     (case add_node_cost allocation cost (allocation_of ga node)
             (sorted_list_of_set (allocation_of ga node)) of
        Inl e \<Rightarrow> Inl e
      | Inr allocation' \<Rightarrow> add_all_costs ga allocation' items)"

definition current_allocation_per_gpu ::
  "SlidingWindowHistogram \<Rightarrow> gpu_allocation_map \<Rightarrow> py_error + rat list" where
  "current_allocation_per_gpu h ga =
     add_all_costs ga (replicate (num_gpus h) 0) (histogram h)"

section \<open>TTFTWindowedOverloadedDetector\<close>

record TTFTWindowedOverloadedDetector =
  data :: "(nat \<times> nat) \<rightharpoonup> (int \<times> rat) list"
  ttft_window_duration :: int
  half_window_duration :: int

text \<open>The loop of \<^verbatim>\<open>calculate_half_window_averages\<close>: each sample goes to the end of
  \<open>first_half\<close> when it is older than the cutoff, to the end of \<open>second_half\<close> otherwise.\<close>

fun split_halves :: "int \<Rightarrow> (int \<times> rat) list \<Rightarrow> rat list \<Rightarrow> rat list \<Rightarrow> rat list \<times> rat list" where
  "split_halves half_window_cutoff [] first_half second_half = (first_half, second_half)"
| "split_halves half_window_cutoff ((timestamp, v) # rest) first_half second_half =
     (if timestamp < half_window_cutoff
      then split_halves half_window_cutoff rest (first_half @ [v]) second_half
      else split_halves half_window_cutoff rest first_half (second_half @ [v]))"

text \<open>\<open>now\<close> is the value of \<^verbatim>\<open>datetime.now()\<close> at the call.\<close>

definition calculate_half_window_averages ::
  "TTFTWindowedOverloadedDetector \<Rightarrow> int \<Rightarrow> nat \<times> nat \<Rightarrow> rat option \<times> rat option" where
  "calculate_half_window_averages d now key =
     (let half_window_cutoff = now - half_window_duration d in
      case data d key of
        None \<Rightarrow> (None, None)
      | Some series \<Rightarrow>
          (case split_halves half_window_cutoff series [] [] of
            (first_half, second_half) \<Rightarrow>
              if length first_half = 0 then (None, None)
              else if length second_half = 0 then (None, None)
              else
                (Some (if first_half \<noteq> []
                       then sum_list first_half / of_nat (length first_half) else 0),
                 Some (if second_half \<noteq> []
                       then sum_list second_half / of_nat (length second_half) else 0))))"

text \<open>\<^verbatim>\<open>is_node_overloaded\<close> returns \<^verbatim>\<open>False\<close> when both averages are \<^verbatim>\<open>None\<close>;
  comparing with a single \<^verbatim>\<open>None\<close> would raise \<^verbatim>\<open>TypeError\<close>.\<close>

definition is_node_overloaded ::
  "TTFTWindowedOverloadedDetector \<Rightarrow> int \<Rightarrow> nat \<Rightarrow> nat \<Rightarrow> py_error + bool" where
  "is_node_overloaded d now node gpu =
     (case calculate_half_window_averages d now (node, gpu) of
        (None, None) \<Rightarrow> Inr False
      | (Some avg_first_half, Some avg_second_half) \<Rightarrow>
          Inr (avg_second_half \<ge> 2 * avg_first_half)
      | _ \<Rightarrow> Inl TypeError)"

definition delete_after_allocation ::
  "TTFTWindowedOverloadedDetector \<Rightarrow> nat \<Rightarrow> nat \<Rightarrow> TTFTWindowedOverloadedDetector" where
  "delete_after_allocation d node gpu =
     (if (node, gpu) \<in> dom (data d) then d\<lparr>data := (data d)((node, gpu) := None)\<rparr> else d)"

definition detector_rename_node ::
  "TTFTWindowedOverloadedDetector \<Rightarrow> nat \<Rightarrow> nat \<Rightarrow> nat \<Rightarrow> TTFTWindowedOverloadedDetector" where
  "detector_rename_node d old_node new_node runtime_idx =
     (case data d (old_node, runtime_idx) of
        None \<Rightarrow> d
      | Some series \<Rightarrow>
          d\<lparr>data := ((data d)((old_node, runtime_idx) := None))((new_node, runtime_idx) \<mapsto> series)\<rparr>)"

section \<open>GlobalScheduler\<close>

text \<open>
  Modelled from the spec: the class \<^verbatim>\<open>LPRadixCache\<close> is not part of the sources either. Its
  state is the store of node objects, the root node, the identity of the next node object to
  be created, and the number of workers it was constructed with.
\<close>

record LPRadixCache =
  nodes :: node_store
  root_node :: nat
  next_node :: nat
  cache_num_gpus :: nat

text \<open>The fields of \<^verbatim>\<open>GlobalScheduler\<close> that the modelled methods read or write.
  \<^verbatim>\<open>per_gpu_load\<close> is a dict in insertion order; \<^verbatim>\<open>metrics_dict\<close> keeps the selected
  runtime of every record appended to it.\<close>

record GlobalScheduler =
  scheduler_num_gpus :: nat
  gpu_allocations :: gpu_allocation_map
  counter :: nat
  per_gpu_load :: "(nat \<times> int) list"
  all_gpus :: "nat set"
  histogram_of :: SlidingWindowHistogram
  cache :: LPRadixCache
  HIGH_LOAD_THRESHOLD :: rat
  overload_detector :: TTFTWindowedOverloadedDetector
  enable_rebalancing :: bool
  metrics_dict :: "nat list"

definition node_of :: "GlobalScheduler \<Rightarrow> nat \<Rightarrow> LPTreeNode" where
  "node_of s n = nodes (cache s) n"

subsection \<open>Split bookkeeping\<close>

text \<open>\<^verbatim>\<open>split_nodes\<close> is a dict from the split child to the new intermediate node, iterated
  in insertion order. \<^verbatim>\<open>gpu_allocations[child_node]\<close> raises \<^verbatim>\<open>KeyError\<close> on a missing key.\<close>

fun handle_split_nodes_gpu_allocations ::
  "(nat \<times> nat) list \<Rightarrow> gpu_allocation_map \<Rightarrow> gpu_allocation_map \<times> py_error option" where
  "handle_split_nodes_gpu_allocations [] ga = (ga, None)"
| "handle_split_nodes_gpu_allocations ((child_node, new_node) # rest) ga =
     (case ga child_node of
        None \<Rightarrow> (ga, Some KeyError)
      | Some S \<Rightarrow> handle_split_nodes_gpu_allocations rest (ga(new_node \<mapsto> S)))"

definition is_large_node :: "LPTreeNode \<Rightarrow> bool" where
  "is_large_node node \<longleftrightarrow>
     int (num_tokens node) > int (context_length node) - int (num_tokens node)"

definition is_small_node :: "LPTreeNode \<Rightarrow> bool" where
  "is_small_node node \<longleftrightarrow> \<not> is_large_node node"

text \<open>The inner loop of \<^verbatim>\<open>handle_split_node_histogram\<close> over the workers of the child's
  allocation set.\<close>

fun rename_for_gpus ::
  "TTFTWindowedOverloadedDetector \<Rightarrow> nat \<Rightarrow> nat \<Rightarrow> nat list \<Rightarrow> TTFTWindowedOverloadedDetector" where
  "rename_for_gpus d child parent_node [] = d"
| "rename_for_gpus d child parent_node (gpu # gpus) =
     rename_for_gpus (detector_rename_node d child parent_node gpu) child parent_node gpus"

fun handle_split_node_histogram ::
  "GlobalScheduler \<Rightarrow> (nat \<times> nat) list \<Rightarrow> GlobalScheduler \<times> py_error option" where
  "handle_split_node_histogram s [] = (s, None)"
| "handle_split_node_histogram s ((child, parent_node) # rest) =
     (if is_large_node (node_of s parent_node) \<and> \<not> is_large_node (node_of s child)
      then (case hist_rename_node (histogram_of s) child parent_node of
              (h', Some e) \<Rightarrow> (s\<lparr>histogram_of := h'\<rparr>, Some e)
            | (h', None) \<Rightarrow>
                handle_split_node_histogram
                  (s\<lparr>histogram_of := h',
                     overload_detector :=
                       rename_for_gpus (overload_detector s) child parent_node
                         (sorted_list_of_set (allocation_of (gpu_allocations s) child))\<rparr>)
                  rest)
      else handle_split_node_histogram s rest)"

subsection \<open>Walks towards the root\<close>

text \<open>The recursive methods follow \<^verbatim>\<open>node.parent\<close>; the argument is \<open>None\<close> where the
  Python argument is \<^verbatim>\<open>None\<close>. A walk that never ends has no result.\<close>

partial_function (option) get_parent_gpu_allocation ::
  "GlobalScheduler \<Rightarrow> nat option \<Rightarrow> nat set option" where
  "get_parent_gpu_allocation s node =
     (case node of
        None \<Rightarrow> Some (all_gpus s)
      | Some n \<Rightarrow>
          if allocation_of (gpu_allocations s) n \<noteq> {}
          then Some (allocation_of (gpu_allocations s) n)
          else get_parent_gpu_allocation s (parent (node_of s n)))"

text \<open>\<^verbatim>\<open>update_gpu_cache_for_parent\<close> updates the node and then calls
  \<^verbatim>\<open>self.update_cached_gpus_of_parent\<close>, a method that \<^verbatim>\<open>GlobalScheduler\<close> does not
  define: the attribute lookup raises \<^verbatim>\<open>AttributeError\<close>.\<close>

definition update_gpu_cache_for_parent ::
  "GlobalScheduler \<Rightarrow> nat option \<Rightarrow> nat set \<Rightarrow> GlobalScheduler \<times> py_error option" where
  "update_gpu_cache_for_parent s node gpu_id =
     (case node of
        None \<Rightarrow> (s, None)
      | Some n \<Rightarrow>
          (s\<lparr>cache := (cache s)\<lparr>nodes := (nodes (cache s))
                (n := (node_of s n)\<lparr>cached_gpus := cached_gpus (node_of s n) \<union> gpu_id\<rparr>)\<rparr>\<rparr>,
           Some AttributeError))"

partial_function (option) update_gpu_allocation_for_parent ::
  "GlobalScheduler \<Rightarrow> nat option \<Rightarrow> nat set \<Rightarrow> GlobalScheduler option" where
  "update_gpu_allocation_for_parent s node gpu_id =
     (case node of
        None \<Rightarrow> Some s
      | Some n \<Rightarrow>
          update_gpu_allocation_for_parent
            (s\<lparr>gpu_allocations :=
                 (gpu_allocations s)(n \<mapsto> allocation_of (gpu_allocations s) n \<union> gpu_id)\<rparr>)
            (parent (node_of s n)) gpu_id)"

text \<open>Reading \<^verbatim>\<open>num_tokens\<close> of \<^verbatim>\<open>None\<close> raises \<^verbatim>\<open>AttributeError\<close>.\<close>

partial_function (option) get_important_node ::
  "GlobalScheduler \<Rightarrow> nat option \<Rightarrow> (py_error + nat) option" where
  "get_important_node s node =
     (case node of
        None \<Rightarrow> Some (Inl AttributeError)
      | Some n \<Rightarrow>
          if is_large_node (node_of s n) then Some (Inr n)
          else get_important_node s (parent (node_of s n)))"

text \<open>\<^verbatim>\<open>node.ref_counter[gpu_id]\<close> is evaluated before the recursive call and raises
  \<^verbatim>\<open>IndexError\<close> past the end of the list.\<close>

partial_function (option) get_recomp_cost_basic ::
  "GlobalScheduler \<Rightarrow> nat option \<Rightarrow> nat \<Rightarrow> (py_error + int) option" where
  "get_recomp_cost_basic s node gpu_id =
     (case node of
        None \<Rightarrow> Some (Inr 0)
      | Some n \<Rightarrow>
          if has_cached_gpu (node_of s n) gpu_id then Some (Inr 0)
          else if \<not> gpu_id < length (ref_counter (node_of s n)) then Some (Inl IndexError)
          else Option.bind (get_recomp_cost_basic s (parent (node_of s n)) gpu_id)
                 (\<lambda>r. case r of
                         Inl e \<Rightarrow> Some (Inl e)
                       | Inr c \<Rightarrow>
                           Some (Inr (int (num_tokens (node_of s n)) *
                                        ref_counter (node_of s n) ! gpu_id + c))))"

subsection \<open>Rebalancing\<close>

text \<open>\<^verbatim>\<open>update_children\<close> visits the children of a node and, below each child, its
  children: the list \<open>todo\<close> holds the children still to be visited, in the order of the
  recursion.\<close>

partial_function (option) update_children_list ::
  "node_store \<Rightarrow> nat list \<Rightarrow> nat \<Rightarrow> gpu_allocation_map \<Rightarrow> gpu_allocation_map option" where
  "update_children_list store todo gpu_id ga =
     (case todo of
        [] \<Rightarrow> Some ga
      | child # rest \<Rightarrow>
          update_children_list store (map snd (children (store child)) @ rest) gpu_id
            (ga(child \<mapsto> {gpu_id})))"

definition update_children ::
  "GlobalScheduler \<Rightarrow> nat \<Rightarrow> nat \<Rightarrow> GlobalScheduler option" where
  "update_children s node gpu_id =
     map_option (\<lambda>ga. s\<lparr>gpu_allocations := ga\<rparr>)
       (update_children_list (nodes (cache s)) (map snd (children (node_of s node))) gpu_id
          (gpu_allocations s))"

text \<open>
  Modelled from the spec: \<^verbatim>\<open>heapq\<close> orders the pairs \<^verbatim>\<open>(cost, node)\<close> by cost and needs
  the comparison of \<^verbatim>\<open>LPTreeNode\<close> objects for equal costs, which is not part of the
  sources; the specification pins insertion order there. The heap is the list of its entries
  in the order in which \<^verbatim>\<open>heappop\<close> returns them.
\<close>

definition heappush :: "(int \<times> nat) list \<Rightarrow> int \<times> nat \<Rightarrow> (int \<times> nat) list" where
  "heappush heap item =
     takeWhile (\<lambda>x. fst x \<le> fst item) heap @ item # dropWhile (\<lambda>x. fst x \<le> fst item) heap"

text \<open>The loop that fills the heap. \<^verbatim>\<open>larger_device in self.gpu_allocations.get(node)\<close>
  raises \<^verbatim>\<open>TypeError\<close> when the node has no entry; reading
  \<^verbatim>\<open>node_to_count[node]\<close> of a \<^verbatim>\<open>defaultdict\<close> stores a zero for a missing key.\<close>

definition touch_count :: "GlobalScheduler \<Rightarrow> nat \<Rightarrow> GlobalScheduler" where
  "touch_count s node =
     (case node_to_count (histogram_of s) node of
        Some c \<Rightarrow> s
      | None \<Rightarrow>
          s\<lparr>histogram_of :=
              (histogram_of s)\<lparr>node_to_count := (node_to_count (histogram_of s))(node \<mapsto> 0)\<rparr>\<rparr>)"

fun collect_nodes ::
  "GlobalScheduler \<Rightarrow> nat \<Rightarrow> (nat \<times> int) list \<Rightarrow> (int \<times> nat) list \<Rightarrow>
   GlobalScheduler \<times> (py_error + (int \<times> nat) list)" where
  "collect_nodes s larger_device [] node_cost_for_gpu = (s, Inr node_cost_for_gpu)"
| "collect_nodes s larger_device ((node, cost) # items) node_cost_for_gpu =
     (case gpu_allocations s node of
        None \<Rightarrow> (s, Inl TypeError)
      | Some S \<Rightarrow>
          if larger_device \<in> S
          then (if count_get (node_to_count (histogram_of s)) node > 1
                then collect_nodes (touch_count s node) larger_device items
                       (heappush node_cost_for_gpu (cost, node))
                else collect_nodes (touch_count s node) larger_device items node_cost_for_gpu)
          else collect_nodes s larger_device items node_cost_for_gpu)"

text \<open>The branch for a single candidate. The result holds the updated
  \<^verbatim>\<open>larger_allocation_cost\<close> and \<^verbatim>\<open>smaller_device_allocation_cost\<close>; \<open>now\<close> is the
  reading of the clock inside \<^verbatim>\<open>is_node_overloaded\<close>.\<close>

definition steal_single ::
  "GlobalScheduler \<Rightarrow> int \<Rightarrow> int \<times> nat \<Rightarrow> nat \<Rightarrow> rat \<Rightarrow> nat \<Rightarrow> rat \<Rightarrow>
   GlobalScheduler \<times> (py_error + rat \<times> rat)" where
  "steal_single s now item larger_device larger_allocation_cost smaller_device
       smaller_device_allocation_cost =
     (case item of (cost0, node) \<Rightarrow>
        let cost = of_int cost0 / 2 in
        case gpu_allocations s node of
          None \<Rightarrow> (s, Inl KeyError)
        | Some S \<Rightarrow>
            if smaller_device \<notin> S
            then (case is_node_overloaded (overload_detector s) now node larger_device of
                    Inl e \<Rightarrow> (s, Inl e)
                  | Inr overloaded \<Rightarrow>
                      if overloaded
                      then (s\<lparr>gpu_allocations := (gpu_allocations s)(node \<mapsto> insert smaller_device S),
                              overload_detector :=
                                delete_after_allocation (overload_detector s) node larger_device\<rparr>,
                            Inr (larger_allocation_cost - cost,
                                 smaller_device_allocation_cost + cost))
                      else (s, Inr (larger_allocation_cost, smaller_device_allocation_cost)))
            else (s, Inr (larger_allocation_cost, smaller_device_allocation_cost)))"

text \<open>The \<^verbatim>\<open>while\<close> loop of the other branch: \<^verbatim>\<open>heappop\<close> takes the head of the list.\<close>

fun steal_loop ::
  "GlobalScheduler \<Rightarrow> (int \<times> nat) list \<Rightarrow> rat \<Rightarrow> nat \<Rightarrow> rat \<Rightarrow>
   (GlobalScheduler \<times> (py_error + rat \<times> rat)) option" where
  "steal_loop s [] larger_allocation_cost smaller_device smaller_device_allocation_cost =
     Some (s, Inr (larger_allocation_cost, smaller_device_allocation_cost))"
| "steal_loop s ((cost, node) # heap) larger_allocation_cost smaller_device
       smaller_device_allocation_cost =
     (if \<not> is_large_node (node_of s node) then Some (s, Inl AssertionError)
      else case gpu_allocations s node of
        None \<Rightarrow> Some (s, Inl KeyError)
      | Some S \<Rightarrow>
          if smaller_device \<in> S
          then steal_loop s heap larger_allocation_cost smaller_device
                 smaller_device_allocation_cost
          else if larger_allocation_cost - of_int cost
                    < smaller_device_allocation_cost + of_int cost
          then Some (s, Inr (larger_allocation_cost, smaller_device_allocation_cost))
          else (case update_children
                       (s\<lparr>gpu_allocations := (gpu_allocations s)(node \<mapsto> {smaller_device})\<rparr>)
                       node smaller_device of
                  None \<Rightarrow> None
                | Some s' \<Rightarrow>
                    steal_loop s' heap (larger_allocation_cost - of_int cost) smaller_device
                      (smaller_device_allocation_cost + of_int cost)))"


text \<open>One call of \<^verbatim>\<open>handle_important_node_stealing_recursive\<close> up to its recursive call:
  the heap is filled, and one of the two branches runs.\<close>

definition steal_pass ::
  "GlobalScheduler \<Rightarrow> int \<Rightarrow> nat \<Rightarrow> rat \<Rightarrow> nat \<Rightarrow> rat \<Rightarrow>
   (GlobalScheduler \<times> (py_error + rat \<times> rat)) option" where
  "steal_pass s now larger_device larger_allocation_cost smaller_device
       smaller_device_allocation_cost =
     (case collect_nodes s larger_device (histogram (histogram_of s)) [] of
        (s1, Inl e) \<Rightarrow> Some (s1, Inl e)
      | (s1, Inr node_cost_for_gpu) \<Rightarrow>
          if length node_cost_for_gpu = 1
          then Some (steal_single s1 now (hd node_cost_for_gpu) larger_device
                       larger_allocation_cost smaller_device smaller_device_allocation_cost)
          else steal_loop s1 node_cost_for_gpu larger_allocation_cost smaller_device
                 smaller_device_allocation_cost)"

text \<open>\<open>clock k\<close> is the reading of \<^verbatim>\<open>datetime.now()\<close> in the call that receives \<open>k\<close>
  devices. Indexing an empty list raises \<^verbatim>\<open>IndexError\<close>.\<close>

function handle_important_node_stealing_recursive ::
  "(nat \<Rightarrow> int) \<Rightarrow> GlobalScheduler \<Rightarrow> (nat \<times> rat) list \<Rightarrow>
   (GlobalScheduler \<times> py_error option) option" where
  "handle_important_node_stealing_recursive clock s allocation_cost_with_devices =
     (if length allocation_cost_with_devices = 1 then Some (s, None)
      else case allocation_cost_with_devices of
        [] \<Rightarrow> Some (s, Some IndexError)
      | (larger_device, larger_allocation_cost) # others \<Rightarrow>
          (case last allocation_cost_with_devices of
             (smaller_device, smaller_device_allocation_cost) \<Rightarrow>
               if larger_allocation_cost
                    < HIGH_LOAD_THRESHOLD s * smaller_device_allocation_cost
               then Some (s, None)
               else (case steal_pass s (clock (length allocation_cost_with_devices))
                             larger_device larger_allocation_cost smaller_device
                             smaller_device_allocation_cost of
                       None \<Rightarrow> None
                     | Some (s', Inl e) \<Rightarrow> Some (s', Some e)
                     | Some (s', Inr (larger_cost', smaller_cost')) \<Rightarrow>
                         handle_important_node_stealing_recursive clock s'
                           (tl ((allocation_cost_with_devices[0 := (larger_device, larger_cost')])
                                  [length allocation_cost_with_devices - 1 :=
                                     (smaller_device, smaller_cost')])))))"
  by pat_completeness auto
termination
  by (relation "measure (\<lambda>(clock, s, acd). length acd)") (auto split: nat.splits)

declare handle_important_node_stealing_recursive.simps [simp del]

text \<open>\<^verbatim>\<open>sorted(..., key=lambda x: -x[1])\<close> is a stable sort.\<close>

definition handle_important_node_stealing ::
  "(nat \<Rightarrow> int) \<Rightarrow> GlobalScheduler \<Rightarrow> nat \<Rightarrow> (GlobalScheduler \<times> py_error option) option" where
  "handle_important_node_stealing clock s scheduled_idx =
     (if sum_list (map snd (per_gpu_load s)) < 50 then Some (s, None)
      else case current_allocation_per_gpu (histogram_of s) (gpu_allocations s) of
        Inl e \<Rightarrow> Some (s, Some e)
      | Inr allocation_cost_per_gpu \<Rightarrow>
          handle_important_node_stealing_recursive clock s
            (sort_key (\<lambda>x. - snd x)
               (map (\<lambda>gpu_id. (gpu_id, allocation_cost_per_gpu ! gpu_id))
                  [0..<length allocation_cost_per_gpu])))"

subsection \<open>Insertion into the radix tree\<close>

text \<open>
  Modelled from the spec: \<^verbatim>\<open>LPRadixCache.insert\<close> is not part of the sources. Following the
  specification (4.A), it walks from the root; at each node the child is looked up by the
  first token of the remaining key. Without such a child, a new leaf holds the remaining
  key. When the child's segment is matched completely the walk goes on below the child.
  Otherwise the child is split: a new intermediate node holds the common prefix, takes the
  child's place under the parent and inherits the child's \<^verbatim>\<open>cached_gpus\<close>,
  \<^verbatim>\<open>evicted_gpus\<close> and \<^verbatim>\<open>ref_counter\<close>; the child keeps the remainder of its segment
  (and what is below it) and becomes a child of the intermediate node; the pair
  (child, intermediate) is recorded in \<^verbatim>\<open>split_nodes\<close>. The result is the node whose path
  is the key. The first token of a child's segment is the key of the child in its parent, so
  the match has at least one token.
\<close>

fun match_length :: "nat list \<Rightarrow> nat list \<Rightarrow> nat" where
  "match_length (x # xs) (y # ys) = (if x = y then Suc (match_length xs ys) else 0)"
| "match_length xs ys = 0"

definition add_leaf :: "LPRadixCache \<Rightarrow> nat \<Rightarrow> nat list \<Rightarrow> LPRadixCache" where
  "add_leaf c node key =
     (let leaf = next_node c; p = nodes c node in
      c\<lparr>nodes := (nodes c)
           (leaf := \<lparr>node_value = key, context_length = context_length p + length key,
                     children = [], parent = Some node, cached_gpus = {}, evicted_gpus = {},
                     ref_counter = replicate (cache_num_gpus c) 0\<rparr>,
            node := p\<lparr>children := AList.update (hd key) leaf (children p)\<rparr>),
        next_node := Suc leaf\<rparr>)"

definition split_node :: "LPRadixCache \<Rightarrow> nat \<Rightarrow> nat \<Rightarrow> nat \<Rightarrow> LPRadixCache" where
  "split_node c node child split_len =
     (let new_node = next_node c; p = nodes c node; ch = nodes c child in
      c\<lparr>nodes := (nodes c)
           (new_node := \<lparr>node_value = take split_len (node_value ch),
                         context_length = context_length p + split_len,
                         children = [(node_value ch ! split_len, child)],
                         parent = Some node, cached_gpus = cached_gpus ch,
                         evicted_gpus = evicted_gpus ch, ref_counter = ref_counter ch\<rparr>,
            child := ch\<lparr>node_value := drop split_len (node_value ch), parent := Some new_node\<rparr>,
            node := p\<lparr>children := AList.update (hd (node_value ch)) new_node (children p)\<rparr>),
        next_node := Suc new_node\<rparr>)"

function insert_helper ::
  "LPRadixCache \<Rightarrow> nat \<Rightarrow> nat list \<Rightarrow> (nat \<times> nat) list \<Rightarrow>
   LPRadixCache \<times> nat \<times> (nat \<times> nat) list" where
  "insert_helper c node key split_nodes =
     (case key of
        [] \<Rightarrow> (c, node, split_nodes)
      | k # ks \<Rightarrow>
          (case map_of (children (nodes c node)) k of
             None \<Rightarrow> (add_leaf c node key, next_node c, split_nodes)
           | Some child \<Rightarrow>
               (let split_len = Suc (match_length ks (tl (node_value (nodes c child)))) in
                if length (node_value (nodes c child)) \<le> split_len
                then insert_helper c child (drop split_len key) split_nodes
                else insert_helper (split_node c node child split_len) (next_node c)
                       (drop split_len key) (split_nodes @ [(child, next_node c)]))))"
  by pat_completeness auto
termination
  by (relation "measure (\<lambda>(c, node, key, split_nodes). length key)") auto

declare insert_helper.simps [simp del]

definition cache_insert ::
  "LPRadixCache \<Rightarrow> nat list \<Rightarrow> LPRadixCache \<times> nat \<times> (nat \<times> nat) list" where
  "cache_insert c key = insert_helper c (root_node c) key []"

text \<open>
  Modelled from the spec: \<^verbatim>\<open>LPRadixCache.update_allocated_size\<close> marks the worker cached
  along the leaf's ancestry; \<^verbatim>\<open>allocated_size\<close> is the sum over the nodes marked so and is
  not stored.
\<close>

partial_function (option) mark_cached ::
  "LPRadixCache \<Rightarrow> nat option \<Rightarrow> nat \<Rightarrow> LPRadixCache option" where
  "mark_cached c node w =
     (case node of
        None \<Rightarrow> Some c
      | Some n \<Rightarrow>
          mark_cached
            (c\<lparr>nodes := (nodes c)(n := (nodes c n)\<lparr>cached_gpus := insert w (cached_gpus (nodes c n))\<rparr>)\<rparr>)
            (parent (nodes c n)) w)"

definition update_allocated_size :: "LPRadixCache \<Rightarrow> nat \<Rightarrow> nat \<Rightarrow> LPRadixCache option" where
  "update_allocated_size c leaf_node w = mark_cached c (Some leaf_node) w"

subsection \<open>Placement\<close>

text \<open>The loop that fills \<^verbatim>\<open>recom_costs\<close>.\<close>

fun recomp_costs ::
  "GlobalScheduler \<Rightarrow> nat option \<Rightarrow> nat list \<Rightarrow> (py_error + int list) option" where
  "recomp_costs s node [] = Some (Inr [])"
| "recomp_costs s node (gpu_id # gpus) =
     (case get_recomp_cost_basic s node gpu_id of
        None \<Rightarrow> None
      | Some (Inl e) \<Rightarrow> Some (Inl e)
      | Some (Inr recomputation_cost) \<Rightarrow>
          (case recomp_costs s node gpus of
             None \<Rightarrow> None
           | Some (Inl e) \<Rightarrow> Some (Inl e)
           | Some (Inr costs) \<Rightarrow> Some (Inr (recomputation_cost # costs))))"

text \<open>\<^verbatim>\<open>np.argmin\<close>: the first index of a least element; \<^verbatim>\<open>ValueError\<close> on an empty
  sequence.\<close>

fun argmin_from :: "nat \<Rightarrow> rat \<Rightarrow> nat \<Rightarrow> rat list \<Rightarrow> nat" where
  "argmin_from best least i [] = best"
| "argmin_from best least i (x # xs) =
     (if x < least then argmin_from i x (Suc i) xs else argmin_from best least (Suc i) xs)"

definition argmin :: "rat list \<Rightarrow> py_error + nat" where
  "argmin xs = (case xs of [] \<Rightarrow> Inl ValueError | x # rest \<Rightarrow> Inr (argmin_from 0 x 1 rest))"

text \<open>The choice of \<^verbatim>\<open>gpu_selected\<close>. Indexing \<^verbatim>\<open>histogram_mem_cost\<close> past its end
  raises \<^verbatim>\<open>IndexError\<close>.\<close>

definition select_gpus ::
  "GlobalScheduler \<Rightarrow> nat \<Rightarrow> nat option \<Rightarrow> (py_error + nat set) option" where
  "select_gpus s leaf_node runtime_id_with_highest_hit_rate =
     (if int (num_tokens (node_of s leaf_node))
           < int (context_length (node_of s leaf_node)) - int (num_tokens (node_of s leaf_node))
      then map_option Inr (get_parent_gpu_allocation s (Some leaf_node))
      else case runtime_id_with_highest_hit_rate of
        Some w \<Rightarrow> Some (Inr {w})
      | None \<Rightarrow>
          (case recomp_costs s (parent (node_of s leaf_node)) [0..<scheduler_num_gpus s] of
             None \<Rightarrow> None
           | Some (Inl e) \<Rightarrow> Some (Inl e)
           | Some (Inr recom_costs) \<Rightarrow>
               (case current_allocation_per_gpu (histogram_of s) (gpu_allocations s) of
                  Inl e \<Rightarrow> Some (Inl e)
                | Inr histogram_mem_cost \<Rightarrow>
                    if length histogram_mem_cost < scheduler_num_gpus s
                    then Some (Inl IndexError)
                    else (case argmin (map (\<lambda>gpu_id. of_int (recom_costs ! gpu_id)
                                                  + histogram_mem_cost ! gpu_id)
                                         [0..<scheduler_num_gpus s]) of
                            Inl e \<Rightarrow> Some (Inl e)
                          | Inr gpu_selected \<Rightarrow> Some (Inr {gpu_selected})))))"

text \<open>\<^verbatim>\<open>list(gpu_selected)[0]\<close>, replaced by the draw of \<^verbatim>\<open>np.random.choice\<close> when the set
  has more than one element (\<open>rnd\<close> is the draw). Indexing the empty list raises
  \<^verbatim>\<open>IndexError\<close>.\<close>

definition choose_runtime :: "nat set \<Rightarrow> nat \<Rightarrow> py_error + nat" where
  "choose_runtime gpu_selected rnd =
     (case sorted_list_of_set gpu_selected of
        [] \<Rightarrow> Inl IndexError
      | g # gs \<Rightarrow>
          Inr (if length (g # gs) > 1 then (g # gs) ! (rnd mod length (g # gs)) else g))"

text \<open>The statements of \<^verbatim>\<open>runtime_selector\<close> after the choice of \<^verbatim>\<open>gpu_selected\<close>.
  \<^verbatim>\<open>per_gpu_load[runtime_idx]\<close> raises \<^verbatim>\<open>KeyError\<close> on a missing key.\<close>

definition place_request ::
  "GlobalScheduler \<Rightarrow> nat \<Rightarrow> nat \<Rightarrow> nat set \<Rightarrow> int \<Rightarrow> (nat \<Rightarrow> int) \<Rightarrow> nat \<Rightarrow>
   (GlobalScheduler \<times> (py_error + nat)) option" where
  "place_request s leaf_node important_node gpu_selected now clock rnd =
     (case hist_update (nodes (cache s)) (histogram_of s) (gpu_allocations s) now
             important_node leaf_node of
        (h', ga') \<Rightarrow>
          (case update_gpu_allocation_for_parent
                  (s\<lparr>histogram_of := h', gpu_allocations := ga'\<rparr>) (Some leaf_node)
                  gpu_selected of
             None \<Rightarrow> None
           | Some s1 \<Rightarrow>
               (case choose_runtime gpu_selected rnd of
                  Inl e \<Rightarrow> Some (s1, Inl e)
                | Inr runtime_idx \<Rightarrow>
                    (case map_of (per_gpu_load s1) runtime_idx of
                       None \<Rightarrow> Some (s1, Inl KeyError)
                     | Some load \<Rightarrow>
                         (let s2 = s1\<lparr>per_gpu_load :=
                                       AList.update runtime_idx (load + 1) (per_gpu_load s1)\<rparr>
                          in case update_allocated_size (cache s2) leaf_node runtime_idx of
                               None \<Rightarrow> None
                             | Some cache' \<Rightarrow>
                                 (case (if enable_rebalancing s2
                                        then handle_important_node_stealing clock
                                               (s2\<lparr>cache := cache'\<rparr>) runtime_idx
                                        else Some (s2\<lparr>cache := cache'\<rparr>, None)) of
                                    None \<Rightarrow> None
                                  | Some (s3, Some e) \<Rightarrow> Some (s3, Inl e)
                                  | Some (s3, None) \<Rightarrow>
                                      Some (s3\<lparr>counter := counter s3 + 1,
                                               metrics_dict := metrics_dict s3 @ [runtime_idx]\<rparr>,
                                            Inr runtime_idx)))))))"

text \<open>\<open>now\<close> is the reading of the clock passed to \<^verbatim>\<open>histogram.update\<close>. The result is
  the state when the call ends and the returned worker or the exception raised; a call that
  never ends has no result.\<close>

definition runtime_selector ::
  "GlobalScheduler \<Rightarrow> nat list \<Rightarrow> nat option \<Rightarrow> int \<Rightarrow> (nat \<Rightarrow> int) \<Rightarrow> nat \<Rightarrow>
   (GlobalScheduler \<times> (py_error + nat)) option" where
  "runtime_selector s input_ids runtime_id_with_highest_hit_rate now clock rnd =
     (case cache_insert (cache s) input_ids of
        (cache', leaf_node, split_nodes) \<Rightarrow>
          (case handle_split_nodes_gpu_allocations split_nodes (gpu_allocations s) of
             (ga1, Some e) \<Rightarrow> Some (s\<lparr>cache := cache', gpu_allocations := ga1\<rparr>, Inl e)
           | (ga1, None) \<Rightarrow>
               (case handle_split_node_histogram
                       (s\<lparr>cache := cache', gpu_allocations := ga1\<rparr>) split_nodes of
                  (s1, Some e) \<Rightarrow> Some (s1, Inl e)
                | (s1, None) \<Rightarrow>
                    (case get_important_node s1 (Some leaf_node) of
                       None \<Rightarrow> None
                     | Some (Inl e) \<Rightarrow> Some (s1, Inl e)
                     | Some (Inr important_node) \<Rightarrow>
                         (case select_gpus s1 leaf_node runtime_id_with_highest_hit_rate of
                            None \<Rightarrow> None
                          | Some (Inl e) \<Rightarrow> Some (s1, Inl e)
                          | Some (Inr gpu_selected) \<Rightarrow>
                              place_request s1 leaf_node important_node gpu_selected now
                                clock rnd)))))"

text \<open>The scheduler that \<^verbatim>\<open>__init__\<close> builds for \<open>num_nodes\<close> workers, with rebalancing
  enabled; the windows are three minutes. The root of the tree is node \<open>0\<close>, with an empty
  segment.\<close>

definition init_scheduler :: "nat \<Rightarrow> GlobalScheduler" where
  "init_scheduler num_nodes =
     \<lparr>scheduler_num_gpus = num_nodes,
      gpu_allocations = Map.empty,
      counter = 0,
      per_gpu_load = map (\<lambda>i. (i, 0)) [0..<num_nodes],
      all_gpus = set [0..<num_nodes],
      histogram_of =
        \<lparr>window_duration = 180000000, histogram = [], node_to_count = Map.empty,
         timestamps = [], num_gpus = num_nodes\<rparr>,
      cache =
        \<lparr>nodes = (\<lambda>n. \<lparr>node_value = [], context_length = 0, children = [], parent = None,
                         cached_gpus = {}, evicted_gpus = {},
                         ref_counter = replicate num_nodes 0\<rparr>),
         root_node = 0, next_node = 1, cache_num_gpus = num_nodes\<rparr>,
      HIGH_LOAD_THRESHOLD = 14 / 10,
      overload_detector =
        \<lparr>data = Map.empty, ttft_window_duration = 180000000, half_window_duration = 90000000\<rparr>,
      enable_rebalancing = True,
      metrics_dict = []\<rparr>"

section \<open>Notions for the statements\<close>








text \<open>A node that the purge has dropped: no weighted count, no event count, and an empty
  allocation set.\<close>

definition is_reset :: "SlidingWindowHistogram \<Rightarrow> gpu_allocation_map \<Rightarrow> nat \<Rightarrow> bool" where
  "is_reset h ga n \<longleftrightarrow>
     map_of (histogram h) n = None \<and> node_to_count h n = None \<and> ga n = Some {}"

definition candidate :: "GlobalScheduler \<Rightarrow> nat \<Rightarrow> nat \<Rightarrow> bool" where
  "candidate s ld n \<longleftrightarrow>
     (\<exists>S. gpu_allocations s n = Some S \<and> ld \<in> S) \<and>
     count_get (node_to_count (histogram_of s)) n > 1"











section \<open>Example states\<close>

text \<open>A detector with one series, for node \<open>1\<close> on worker \<open>0\<close>: a sample at time 0 and a
  sample 100 seconds later. The window is three minutes.\<close>

definition example_detector :: TTFTWindowedOverloadedDetector where
  "example_detector =
     \<lparr>data = [(1, 0) \<mapsto> [(0, 1), (100000000, 3)]],
      ttft_window_duration = 180000000, half_window_duration = 90000000\<rparr>"

definition example_histogram :: SlidingWindowHistogram where
  "example_histogram =
     \<lparr>window_duration = 180000000, histogram = [(1, 4), (2, 6), (3, 5)],
      node_to_count = [1 \<mapsto> 1, 2 \<mapsto> 1, 3 \<mapsto> 1],
      timestamps = [(0, 1, 1), (5, 2, 2), (7, 3, 3)], num_gpus = 2\<rparr>"

definition example_allocations :: gpu_allocation_map where
  "example_allocations = [1 \<mapsto> {0}, 2 \<mapsto> {0, 1}, 3 \<mapsto> {}]"

text \<open>A tree for the examples: the root \<open>0\<close> with the children \<open>1\<close>, \<open>2\<close>, \<open>3\<close>;
  node \<open>4\<close> below \<open>1\<close>, and node \<open>7\<close> below \<open>4\<close>.\<close>

definition example_store :: node_store where
  "example_store n =
     \<lparr>node_value =
        (if n = 1 then [10, 11, 12, 13] else if n = 2 then [20, 21, 22, 23, 24, 25]
         else if n = 3 then [30, 31, 32, 33, 34] else if n = 4 then [14]
         else if n = 7 then [15] else []),
      context_length =
        (if n = 1 then 4 else if n = 2 then 6 else if n = 3 then 5 else if n = 4 then 5
         else if n = 7 then 6 else 0),
      children =
        (if n = 0 then [(10, 1), (20, 2), (30, 3)] else if n = 1 then [(14, 4)]
         else if n = 4 then [(15, 7)] else []),
      parent =
        (if n = 1 \<or> n = 2 \<or> n = 3 then Some 0 else if n = 4 then Some 1
         else if n = 7 then Some 4 else None),
      cached_gpus = {}, evicted_gpus = {}, ref_counter = [0, 0]\<rparr>"

definition single_scheduler :: GlobalScheduler where
  "single_scheduler =
     \<lparr>scheduler_num_gpus = 2,
      gpu_allocations = [0 \<mapsto> {0}, 1 \<mapsto> {0}, 4 \<mapsto> {0}, 7 \<mapsto> {0}],
      counter = 60, per_gpu_load = [(0, 60), (1, 0)], all_gpus = {0, 1},
      histogram_of =
        \<lparr>window_duration = 180000000, histogram = [(1, 8)], node_to_count = [1 \<mapsto> 2],
         timestamps = [(0, 1, 1), (1, 1, 1)], num_gpus = 2\<rparr>,
      cache = \<lparr>nodes = example_store, root_node = 0, next_node = 8, cache_num_gpus = 2\<rparr>,
      HIGH_LOAD_THRESHOLD = 14 / 10, overload_detector = example_detector,
      enable_rebalancing = True, metrics_dict = []\<rparr>"




text \<open>The state after the first request \<open>[10, 11, 12, 13]\<close> of the scenario, routed at time
  \<open>t1\<close> by the fresh scheduler for two workers.\<close>

definition after_first :: "int \<Rightarrow> GlobalScheduler" where
  "after_first t1 =
     (init_scheduler 2)
       \<lparr>gpu_allocations := [1 \<mapsto> {0}, 0 \<mapsto> {0}],
        counter := 1,
        per_gpu_load := [(0, 1), (1, 0)],
        histogram_of :=
          \<lparr>window_duration = 180000000, histogram = [(1, 4)], node_to_count = [1 \<mapsto> 1],
           timestamps = [(t1, 1, 1)], num_gpus = 2\<rparr>,
        cache :=
          \<lparr>nodes = (nodes (cache (init_scheduler 2)))
             (1 := \<lparr>node_value = [10, 11, 12, 13], context_length = 4, children = [],
                     parent = Some 0, cached_gpus = {0}, evicted_gpus = {},
                     ref_counter = [0, 0]\<rparr>,
              0 := \<lparr>node_value = [], context_length = 0, children = [(10, 1)],
                     parent = None, cached_gpus = {0}, evicted_gpus = {},
                     ref_counter = [0, 0]\<rparr>),
           root_node = 0, next_node = 2, cache_num_gpus = 2\<rparr>,
        metrics_dict := [0]\<rparr>"

section \<open>The overload test\<close>




section \<open>Load per worker\<close>





section \<open>The sliding window\<close>

lemma expire_event_frame:
  "expire_event store h ga node leaf = (h', ga') \<Longrightarrow>
     timestamps h' = timestamps h \<and> window_duration h' = window_duration h"
  by (auto simp: expire_event_def Let_def split: if_splits)

lemma remove_old_entries_dropWhile:
  "remove_old_entries store h ga t = (h', ga') \<Longrightarrow>
     timestamps h' = dropWhile (\<lambda>e. fst e < t - window_duration h) (timestamps h) \<and>
     window_duration h' = window_duration h"
proof (induction store h ga t arbitrary: h' ga' rule: remove_old_entries.induct)
  case (1 store h ga t)
  show ?case
  proof (cases "timestamps h")
    case Nil
    with "1.prems" show ?thesis by (simp add: remove_old_entries.simps[of store h])
  next
    case (Cons e rest')
    then obtain ts node leaf rest where Cons: "timestamps h = (ts, node, leaf) # rest"
      by (cases e) auto
    show ?thesis
    proof (cases "ts < t - window_duration h")
      case False
      with "1.prems" Cons show ?thesis by (simp add: remove_old_entries.simps[of store h])
    next
      case True
      obtain h1 ga1 where ex: "expire_event store (h\<lparr>timestamps := rest\<rparr>) ga node leaf = (h1, ga1)"
        by (cases "expire_event store (h\<lparr>timestamps := rest\<rparr>) ga node leaf")
      from "1.prems" Cons True ex have r: "remove_old_entries store h1 ga1 t = (h', ga')"
        by (simp add: remove_old_entries.simps[of store h])
      from "1.IH"[OF refl Cons refl refl True ex[symmetric] r]
      have "timestamps h' = dropWhile (\<lambda>e. fst e < t - window_duration h1) (timestamps h1) \<and>
            window_duration h' = window_duration h1" by simp
      with expire_event_frame[OF ex] Cons True show ?thesis by simp
    qed
  qed
qed

lemma sorted_dropWhile_bound:
  "sorted (map fst xs) \<Longrightarrow> \<forall>e \<in> set (dropWhile (\<lambda>e. fst e < c) xs). (c::int) \<le> fst e"
  by (induction xs) (auto simp: not_less)

lemma dropWhile_append_bound:
  assumes "sorted (map fst xs)" "(c::int) \<le> fst x"
  shows "\<forall>e \<in> set (dropWhile (\<lambda>e. fst e < c) (xs @ [x])). c \<le> fst e"
proof (cases "\<forall>e \<in> set xs. fst e < c")
  case True
  then show ?thesis using assms(2) by (simp add: dropWhile_append2)
next
  case False
  then obtain y where "y \<in> set xs" "\<not> fst y < c" by blast
  then have "dropWhile (\<lambda>e. fst e < c) (xs @ [x]) = dropWhile (\<lambda>e. fst e < c) xs @ [x]"
    by (simp add: dropWhile_append1)
  then show ?thesis using sorted_dropWhile_bound[OF assms(1), of c] assms(2) by auto
qed

lemma expire_event_keeps_reset:
  assumes "expire_event store h ga node leaf = (h', ga')" "is_reset h ga n"
  shows "is_reset h' ga' n"
  using assms
  by (cases "node = n")
     (auto simp: expire_event_def Let_def is_reset_def histogram_get_def
        update_conv' delete_conv' split: if_splits)

lemma expire_event_resets:
  assumes "expire_event store h ga node leaf = (h', ga')"
    "histogram_get (histogram h) node - int (context_length (store leaf)) \<le> 0"
  shows "is_reset h' ga' node"
  using assms
  by (auto simp: expire_event_def Let_def is_reset_def histogram_get_def update_conv'
        delete_conv' split: if_splits)

lemma remove_old_entries_keeps_reset:
  "remove_old_entries store h ga t = (h', ga') \<Longrightarrow> is_reset h ga n \<Longrightarrow> is_reset h' ga' n"
proof (induction store h ga t arbitrary: h' ga' rule: remove_old_entries.induct)
  case (1 store h ga t)
  show ?case
  proof (cases "timestamps h")
    case Nil
    with "1.prems" show ?thesis by (simp add: remove_old_entries.simps[of store h])
  next
    case (Cons e rest')
    then obtain ts node leaf rest where Cons: "timestamps h = (ts, node, leaf) # rest"
      by (cases e) auto
    show ?thesis
    proof (cases "ts < t - window_duration h")
      case False
      with "1.prems" Cons show ?thesis by (simp add: remove_old_entries.simps[of store h])
    next
      case True
      obtain h1 ga1 where ex: "expire_event store (h\<lparr>timestamps := rest\<rparr>) ga node leaf = (h1, ga1)"
        by (cases "expire_event store (h\<lparr>timestamps := rest\<rparr>) ga node leaf")
      from "1.prems" Cons True ex have r: "remove_old_entries store h1 ga1 t = (h', ga')"
        by (simp add: remove_old_entries.simps[of store h])
      have "is_reset (h\<lparr>timestamps := rest\<rparr>) ga n" using "1.prems"(2) by (simp add: is_reset_def)
      from expire_event_keeps_reset[OF ex this]
      show ?thesis by (rule "1.IH"[OF refl Cons refl refl True ex[symmetric] r])
    qed
  qed
qed

lemma reset_nodes_expire:
  assumes "timestamps h = (ts, node, leaf) # rest" "ts < t - window_duration h"
    "expire_event store (h\<lparr>timestamps := rest\<rparr>) ga node leaf = (h1, ga1)"
  shows "reset_nodes store h ga t =
           (if histogram_get (histogram h) node - int (context_length (store leaf)) \<le> 0
            then [node] else []) @ reset_nodes store h1 ga1 t"
  by (subst reset_nodes.simps) (simp add: assms)

lemma reset_nodes_stop:
  assumes "timestamps h = [] \<or> (\<exists>ts node leaf rest. timestamps h = (ts, node, leaf) # rest \<and>
     \<not> ts < t - window_duration h)"
  shows "reset_nodes store h ga t = []"
  using assms by (subst reset_nodes.simps) auto

lemma remove_old_entries_resets:
  "remove_old_entries store h ga t = (h', ga') \<Longrightarrow>
     \<forall>n \<in> set (reset_nodes store h ga t). is_reset h' ga' n"
proof (induction store h ga t arbitrary: h' ga' rule: remove_old_entries.induct)
  case (1 store h ga t)
  show ?case
  proof (cases "timestamps h")
    case Nil
    then show ?thesis by (simp add: reset_nodes_stop)
  next
    case (Cons e rest')
    then obtain ts node leaf rest where Cons: "timestamps h = (ts, node, leaf) # rest"
      by (cases e) auto
    show ?thesis
    proof (cases "ts < t - window_duration h")
      case False
      with Cons show ?thesis by (simp add: reset_nodes_stop)
    next
      case True
      obtain h1 ga1 where ex: "expire_event store (h\<lparr>timestamps := rest\<rparr>) ga node leaf = (h1, ga1)"
        by (cases "expire_event store (h\<lparr>timestamps := rest\<rparr>) ga node leaf")
      from "1.prems" Cons True ex have r: "remove_old_entries store h1 ga1 t = (h', ga')"
        by (simp add: remove_old_entries.simps[of store h])
      have later: "\<forall>n \<in> set (reset_nodes store h1 ga1 t). is_reset h' ga' n"
        by (rule "1.IH"[OF refl Cons refl refl True ex[symmetric] r])
      have first: "is_reset h' ga' node"
        if "histogram_get (histogram h) node - int (context_length (store leaf)) \<le> 0"
      proof -
        have "is_reset h1 ga1 node" using expire_event_resets[OF ex] that by simp
        then show ?thesis by (rule remove_old_entries_keeps_reset[OF r])
      qed
      show ?thesis
      proof
        fix n assume "n \<in> set (reset_nodes store h ga t)"
        then have "n \<in> set (reset_nodes store h1 ga1 t) \<or>
            (n = node \<and> histogram_get (histogram h) node - int (context_length (store leaf)) \<le> 0)"
          unfolding reset_nodes_expire[OF Cons True ex] by (auto split: if_splits)
        then show "is_reset h' ga' n" using later first by blast
      qed
    qed
  qed
qed

lemma sorted_map_dropWhile:
  "sorted (map f xs) \<Longrightarrow> sorted (map f (dropWhile P xs))"
  by (induction xs) auto

text \<open>
  Claim C4. Let the event FIFO be in timestamp order (events arrive monotonically in time)
  and the window be non-negative. After \<open>update\<close> at time \<open>t\<close>, every event left
  in the FIFO has a timestamp of at least \<open>t - window\<close>; and every node whose weighted
  count reached zero or less at some iteration of the purge has no weighted-count entry, no
  event-count entry, and the empty set as its allocation. When \<open>t\<close> is not before the
  events already in the FIFO, the FIFO is in timestamp order again afterwards.
\<close>

theorem hist_update_window:
  assumes "sorted (map fst (timestamps h))" and "0 \<le> window_duration h"
    and "hist_update store h ga t node leaf = (h', ga')"
  shows "(\<forall>e \<in> set (timestamps h'). t - window_duration h' \<le> fst e) \<and>
         (\<forall>n \<in> set (reset_nodes store (record_event store h t node leaf) ga t).
            map_of (histogram h') n = None \<and> node_to_count h' n = None \<and> ga' n = Some {}) \<and>
         ((\<forall>e \<in> set (timestamps h). fst e \<le> t) \<longrightarrow> sorted (map fst (timestamps h')))"
proof -
  let ?h0 = "record_event store h t node leaf"
  from assms(3) have r: "remove_old_entries store ?h0 ga t = (h', ga')"
    by (simp add: hist_update_def)
  have w: "window_duration ?h0 = window_duration h"
    and ts: "timestamps ?h0 = timestamps h @ [(t, node, leaf)]"
    by (simp_all add: record_event_def)
  from remove_old_entries_dropWhile[OF r] w ts
  have "timestamps h' = dropWhile (\<lambda>e. fst e < t - window_duration h) (timestamps h @ [(t, node, leaf)])"
    and w': "window_duration h' = window_duration h" by simp_all
  moreover have "t - window_duration h \<le> fst (t, node, leaf)" using assms(2) by simp
  ultimately have "\<forall>e \<in> set (timestamps h'). t - window_duration h' \<le> fst e"
    using dropWhile_append_bound[OF assms(1), of "t - window_duration h" "(t, node, leaf)"] by simp
  moreover have "\<forall>n \<in> set (reset_nodes store ?h0 ga t).
            map_of (histogram h') n = None \<and> node_to_count h' n = None \<and> ga' n = Some {}"
    using remove_old_entries_resets[OF r] by (simp add: is_reset_def)
  moreover have "sorted (map fst (timestamps h'))" if "\<forall>e \<in> set (timestamps h). fst e \<le> t"
  proof -
    have "sorted (map fst (timestamps ?h0))"
      using assms(1) that by (auto simp: ts sorted_append)
    with remove_old_entries_dropWhile[OF r] show ?thesis
      by (simp add: sorted_map_dropWhile)
  qed
  ultimately show ?thesis by blast
qed

theorem hist_update_window_witness:
  "sorted (map fst (timestamps example_histogram)) \<and> 0 \<le> window_duration example_histogram \<and>
   reset_nodes example_store
     (record_event example_store example_histogram 180000006 2 2) example_allocations 180000006 = [1] \<and>
   (\<exists>h' ga'. hist_update example_store example_histogram example_allocations 180000006 2 2 = (h', ga') \<and>
      list_all (\<lambda>e. 180000006 - window_duration h' \<le> fst e) (timestamps h') \<and>
      map_of (histogram h') 1 = None \<and> node_to_count h' 1 = None \<and> ga' 1 = Some {} \<and>
      sorted (map fst (timestamps h')))"
proof -
  obtain h' ga' where
    u: "hist_update example_store example_histogram example_allocations 180000006 2 2 = (h', ga')"
    by (cases "hist_update example_store example_histogram example_allocations 180000006 2 2")
  have a: "sorted (map fst (timestamps example_histogram))"
    and b: "0 \<le> window_duration example_histogram"
    by (simp_all add: example_histogram_def)
  have rn: "reset_nodes example_store
     (record_event example_store example_histogram 180000006 2 2) example_allocations 180000006 = [1]"
    by (simp add: reset_nodes.simps record_event_def example_histogram_def example_store_def
        expire_event_def histogram_get_def count_get_def Let_def)
  have le: "\<forall>e \<in> set (timestamps example_histogram). fst e \<le> 180000006"
    by (simp add: example_histogram_def)
  from hist_update_window[OF a b u] rn le
  have "list_all (\<lambda>e. 180000006 - window_duration h' \<le> fst e) (timestamps h') \<and>
      map_of (histogram h') 1 = None \<and> node_to_count h' 1 = None \<and> ga' 1 = Some {} \<and>
      sorted (map fst (timestamps h'))"
    by (simp add: list_all_iff)
  with a b rn u show ?thesis by blast
qed

section \<open>Rebalancing passes\<close>

lemma touch_count_frame:
  "gpu_allocations (touch_count s n) = gpu_allocations s"
  "overload_detector (touch_count s n) = overload_detector s"
  "cache (touch_count s n) = cache s"
  "histogram (histogram_of (touch_count s n)) = histogram (histogram_of s)"
  "count_get (node_to_count (histogram_of (touch_count s n))) m =
     count_get (node_to_count (histogram_of s)) m"
  by (auto simp: touch_count_def count_get_def split: option.splits)

lemma collect_nodes_frame:
  "collect_nodes s ld items heap = (s1, r) \<Longrightarrow>
     gpu_allocations s1 = gpu_allocations s \<and> overload_detector s1 = overload_detector s \<and>
     cache s1 = cache s \<and> histogram (histogram_of s1) = histogram (histogram_of s)"
  by (induction s ld items heap rule: collect_nodes.induct)
     (auto simp: touch_count_frame split: option.splits if_splits)

lemma set_heappush: "set (heappush heap item) = insert item (set heap)"
proof -
  have "set (takeWhile (\<lambda>x. fst x \<le> fst item) heap) \<union>
        set (dropWhile (\<lambda>x. fst x \<le> fst item) heap) = set heap"
    by (metis set_append takeWhile_dropWhile_id)
  then show ?thesis unfolding heappush_def by auto
qed



lemma candidate_touch_count: "candidate (touch_count s m) ld n = candidate s ld n"
  by (simp add: candidate_def touch_count_frame)

lemma collect_nodes_members:
  "collect_nodes s ld items heap = (s1, Inr heap') \<Longrightarrow> x \<in> set heap' \<Longrightarrow>
     x \<in> set heap \<or> ((snd x, fst x) \<in> set items \<and> candidate s ld (snd x))"
proof (induction s ld items heap rule: collect_nodes.induct)
  case (1 s ld heap)
  then show ?case by auto
next
  case (2 s ld node cost items heap)
  from "2.prems" obtain S where S: "gpu_allocations s node = Some S"
    by (auto split: option.splits)
  show ?case
  proof (cases "ld \<in> S")
    case False
    with "2.prems" S have "collect_nodes s ld items heap = (s1, Inr heap')" by simp
    from "2.IH"(3)[OF S False this "2.prems"(2)] show ?thesis by auto
  next
    case True
    show ?thesis
    proof (cases "count_get (node_to_count (histogram_of s)) node > 1")
      case c: True
      with "2.prems" S True
      have "collect_nodes (touch_count s node) ld items (heappush heap (cost, node)) = (s1, Inr heap')"
        by simp
      from "2.IH"(1)[OF S True c this "2.prems"(2)]
      have "x \<in> set (heappush heap (cost, node)) \<or>
            ((snd x, fst x) \<in> set items \<and> candidate s ld (snd x))"
        by (simp only: candidate_touch_count)
      moreover have "candidate s ld node" using S True c by (auto simp: candidate_def)
      ultimately show ?thesis by (auto simp: set_heappush)
    next
      case c: False
      with "2.prems" S True
      have "collect_nodes (touch_count s node) ld items heap = (s1, Inr heap')" by simp
      from "2.IH"(2)[OF S True c this "2.prems"(2)]
      show ?thesis by (auto simp: candidate_touch_count)
    qed
  qed
qed

lemma is_node_overloaded_returns: "\<exists>b. is_node_overloaded d now node gpu = Inr b"
  by (auto simp: is_node_overloaded_def calculate_half_window_averages_def Let_def
      split: option.splits prod.splits)

lemma delete_after_allocation_data:
  "data (delete_after_allocation d node gpu) = (data d)((node, gpu) := None)"
  by (auto simp: delete_after_allocation_def fun_eq_iff)

text \<open>
  Claim C5. Let one call of the rebalancer fill its heap with exactly one candidate
  \<open>(cost, node)\<close>. The node has an allocation set \<open>S\<close> that holds the hot worker, and
  filling the heap changes neither the allocation map nor the detector. When the cold worker is
  not in \<open>S\<close> and the detector reports the node overloaded on the hot worker, the call
  adds the cold worker to \<open>S\<close> (every worker of \<open>S\<close> stays), deletes the detector series of
  (node, hot worker), and moves half the cost from the hot to the cold load. When either
  condition fails, the allocation map, the detector and the two loads are as before.
\<close>

theorem steal_pass_single_candidate:
  assumes "collect_nodes s ld (histogram (histogram_of s)) [] = (s1, Inr [(cost, node)])"
  shows "\<exists>S. gpu_allocations s node = Some S \<and> ld \<in> S \<and>
     gpu_allocations s1 = gpu_allocations s \<and> overload_detector s1 = overload_detector s \<and>
     (if sd \<notin> S \<and> is_node_overloaded (overload_detector s) now node ld = Inr True
      then \<exists>s'. steal_pass s now ld lc sd sc =
                   Some (s', Inr (lc - of_int cost / 2, sc + of_int cost / 2)) \<and>
                gpu_allocations s' = (gpu_allocations s)(node \<mapsto> insert sd S) \<and>
                data (overload_detector s') = (data (overload_detector s))((node, ld) := None)
      else steal_pass s now ld lc sd sc = Some (s1, Inr (lc, sc)))"
proof -
  from collect_nodes_members[OF assms, of "(cost, node)"] obtain S where
    S: "gpu_allocations s node = Some S" "ld \<in> S" by (auto simp: candidate_def)
  from collect_nodes_frame[OF assms] have
    fr: "gpu_allocations s1 = gpu_allocations s" "overload_detector s1 = overload_detector s"
    by simp_all
  obtain b where b: "is_node_overloaded (overload_detector s) now node ld = Inr b"
    using is_node_overloaded_returns by blast
  show ?thesis
    using assms S fr b
    by (auto simp: steal_pass_def steal_single_def Let_def delete_after_allocation_data)
qed









lemma node_of_gpu_allocations_update [simp]:
  "node_of (s\<lparr>gpu_allocations := ga\<rparr>) n = node_of s n"
  by (simp add: node_of_def)

lemma single_collect:
  "collect_nodes single_scheduler 0 (histogram (histogram_of single_scheduler)) [] =
     (single_scheduler, Inr [(8, 1)])"
  by (simp add: single_scheduler_def touch_count_def count_get_def heappush_def)

theorem steal_pass_single_candidate_witness:
  "collect_nodes single_scheduler 0 (histogram (histogram_of single_scheduler)) [] =
     (single_scheduler, Inr [(8, 1)]) \<and>
   is_node_overloaded (overload_detector single_scheduler) 100000000 1 0 = Inr True \<and>
   (\<exists>s'. steal_pass single_scheduler 100000000 0 8 1 0 = Some (s', Inr (4, 4)) \<and>
      gpu_allocations s' 1 = Some {0, 1} \<and> data (overload_detector s') (1, 0) = None)"
proof -
  have ov: "is_node_overloaded (overload_detector single_scheduler) 100000000 1 0 = Inr True"
    by (simp add: single_scheduler_def example_detector_def is_node_overloaded_def
        calculate_half_window_averages_def)
  have a: "gpu_allocations single_scheduler 1 = Some {0}"
    by (simp add: single_scheduler_def)
  from steal_pass_single_candidate[OF single_collect, of 1 100000000 8 0] ov a
  have "\<exists>s'. steal_pass single_scheduler 100000000 0 8 1 0 = Some (s', Inr (8 - 8 / 2, 0 + 8 / 2)) \<and>
          gpu_allocations s' = (gpu_allocations single_scheduler)(1 \<mapsto> insert 1 {0}) \<and>
          data (overload_detector s') = (data (overload_detector single_scheduler))((1, 0) := None)"
    by simp
  then obtain s' where
    "steal_pass single_scheduler 100000000 0 8 1 0 = Some (s', Inr (4, 4))"
    "gpu_allocations s' 1 = Some {0, 1}" "data (overload_detector s') (1, 0) = None"
    by (auto simp: insert_commute)
  with single_collect ov show ?thesis by blast
qed







section \<open>Split bookkeeping\<close>







section \<open>Routing scenarios\<close>

lemma upt2: "[0..<2] = [0, Suc 0]"
  by (simp add: upt_rec)

lemmas walk_simps =
  get_important_node.simps get_parent_gpu_allocation.simps get_recomp_cost_basic.simps
  update_gpu_allocation_for_parent.simps mark_cached.simps

lemmas route_simps =
  runtime_selector_def cache_insert_def insert_helper.simps
  add_leaf_def Let_def walk_simps is_large_node_def num_tokens_def node_of_def
  select_gpus_def upt2 has_cached_gpu_def current_allocation_per_gpu_def argmin_def
  place_request_def choose_runtime_def hist_update_def record_event_def
  remove_old_entries.simps
  histogram_get_def count_get_def allocation_of_def update_allocated_size_def
  handle_important_node_stealing_def expire_event_def

lemma first_route:
  "runtime_selector (init_scheduler 2) [10, 11, 12, 13] None t1 clock rnd =
     Some (after_first t1, Inr 0)"
  by (simp add: route_simps init_scheduler_def after_first_def numeral_2_eq_2 eval_nat_numeral)

lemma first_costs:
  "recomp_costs (init_scheduler 2) (Some 0) [0..<2] = Some (Inr [0, 0]) \<and>
   current_allocation_per_gpu (histogram_of (init_scheduler 2))
     (gpu_allocations (init_scheduler 2)) = Inr [0, 0]"
  by (simp add: route_simps init_scheduler_def numeral_2_eq_2)

lemma second_costs:
  "recomp_costs (after_first t1) (Some 0) [0..<2] = Some (Inr [0, 0]) \<and>
   current_allocation_per_gpu (histogram_of (after_first t1))
     (gpu_allocations (after_first t1)) = Inr [4, 0]"
  by (simp add: route_simps init_scheduler_def after_first_def numeral_2_eq_2)

lemma second_route:
  "\<exists>s2. runtime_selector (after_first t1) [20, 21, 22, 23] None t2 clock rnd = Some (s2, Inr 1)"
  by (cases "t1 < t2 - 180000000")
     (simp_all add: route_simps init_scheduler_def after_first_def numeral_2_eq_2)

text \<open>
  Claim C2. The fresh scheduler for two workers, with no preferred worker, routes
  \<open>[10, 11, 12, 13]\<close> to worker 0: the recompute costs from the root (the parent of the
  leaf) are equal and the histogram loads are both zero, so the first least index wins. It
  then routes \<open>[20, 21, 22, 23]\<close> to worker 1: the recompute costs are equal again, the
  load of worker 0 is 4 and that of worker 1 is zero. This holds for all readings of the
  clock and all random draws.
\<close>

theorem route_cold_then_idle:
  "\<exists>s1 s2.
     runtime_selector (init_scheduler 2) [10, 11, 12, 13] None t1 clock1 rnd1 = Some (s1, Inr 0) \<and>
     runtime_selector s1 [20, 21, 22, 23] None t2 clock2 rnd2 = Some (s2, Inr 1) \<and>
     recomp_costs (init_scheduler 2) (Some 0) [0..<2] = Some (Inr [0, 0]) \<and>
     current_allocation_per_gpu (histogram_of (init_scheduler 2))
       (gpu_allocations (init_scheduler 2)) = Inr [0, 0] \<and>
     recomp_costs s1 (Some 0) [0..<2] = Some (Inr [0, 0]) \<and>
     current_allocation_per_gpu (histogram_of s1) (gpu_allocations s1) = Inr [4, 0]"
  using first_route[of t1 clock1 rnd1] second_route[of t1 t2 clock2 rnd2] first_costs
    second_costs[of t1]
  by blast

text \<open>
  Claim C10. In a tree whose root has an empty segment and no parent, routing the empty
  token sequence ends with an exception (the \<^verbatim>\<open>AttributeError\<close> of
  \<^verbatim>\<open>get_important_node\<close>, which walks from the root to \<^verbatim>\<open>None\<close>; this is how the code
  reports the invalid input), and the state is the one before the call: tree, histogram,
  allocation map, load counters and all the rest.
\<close>

theorem runtime_selector_empty:
  assumes "node_value (nodes (cache s) (root_node (cache s))) = []"
    and "parent (nodes (cache s) (root_node (cache s))) = None"
  shows "runtime_selector s [] pref now clock rnd = Some (s, Inl AttributeError)"
proof -
  have ins: "cache_insert (cache s) [] = (cache s, root_node (cache s), [])"
    by (simp add: cache_insert_def insert_helper.simps)
  have "\<not> is_large_node (node_of s (root_node (cache s)))"
    using assms(1) by (simp add: is_large_node_def num_tokens_def node_of_def)
  then have "get_important_node s (Some (root_node (cache s))) = Some (Inl AttributeError)"
    using assms(2) by (simp add: get_important_node.simps node_of_def)
  then show ?thesis by (simp add: runtime_selector_def ins)
qed

theorem runtime_selector_empty_witness:
  "node_value (nodes (cache (after_first 0)) (root_node (cache (after_first 0)))) = [] \<and>
   parent (nodes (cache (after_first 0)) (root_node (cache (after_first 0)))) = None \<and>
   runtime_selector (after_first 0) [] None 5 (\<lambda>k. 5) 0 = Some (after_first 0, Inl AttributeError)"
proof -
  have a: "node_value (nodes (cache (after_first 0)) (root_node (cache (after_first 0)))) = []"
    and b: "parent (nodes (cache (after_first 0)) (root_node (cache (after_first 0)))) = None"
    by (simp_all add: after_first_def)
  from runtime_selector_empty[OF a b] a b show ?thesis by simp
qed

lemma update_gpu_cache_for_parent_raises:
  "snd (update_gpu_cache_for_parent s (Some n) w) = Some AttributeError \<and>
   nodes (cache (fst (update_gpu_cache_for_parent s (Some n) w))) =
     (nodes (cache s))(n := (node_of s n)\<lparr>cached_gpus := cached_gpus (node_of s n) \<union> w\<rparr>)"
  by (simp add: update_gpu_cache_for_parent_def)

text \<open>
  Claim C8 fails on the code. On the leaf \<open>7\<close> of the example tree, whose ancestors are
  \<open>4\<close>, \<open>1\<close> and the root \<open>0\<close>, \<^verbatim>\<open>update_gpu_cache_for_parent\<close> adds the worker to
  the leaf and raises \<^verbatim>\<open>AttributeError\<close>; no ancestor is updated.
\<close>

theorem update_gpu_cache_for_parent_stops_at_leaf:
  "parent (node_of single_scheduler 7) = Some 4 \<and>
   snd (update_gpu_cache_for_parent single_scheduler (Some 7) {1}) = Some AttributeError \<and>
   cached_gpus (node_of (fst (update_gpu_cache_for_parent single_scheduler (Some 7) {1})) 7) = {1} \<and>
   cached_gpus (node_of (fst (update_gpu_cache_for_parent single_scheduler (Some 7) {1})) 4) = {} \<and>
   cached_gpus (node_of (fst (update_gpu_cache_for_parent single_scheduler (Some 7) {1})) 0) = {}"
  by (simp add: update_gpu_cache_for_parent_def node_of_def single_scheduler_def example_store_def)

section \<open>Routing returns a worker\<close>





























end
